theory Spec2Isabelle
  imports Complex_Main
begin

section \<open>Python values shared by the modules\<close>

text \<open>
  Exceptions are values: the class that was raised and the text that \<open>str(e)\<close> returns.
  A computation that may raise has the result type \<open>exception + 'a\<close>, with \<open>Inl\<close>
  for the raise.
\<close>

datatype exc_class =
  IndexError | ValueError | TypeError | OSError | FileNotFoundError
  | RequestException | HTTPError | OpenAIError | BinasciiError | UnidentifiedImageError

datatype exception = Exception exc_class string

fun str :: "exception \<Rightarrow> string" where
  "str (Exception c msg) = msg"

text \<open>Decimal rendering of an integer, as an f-string does it.\<close>

definition digit_char :: "nat \<Rightarrow> char" where
  "digit_char d = char_of (48 + d)"

fun str_nat :: "nat \<Rightarrow> string" where
  "str_nat n = (if n < 10 then [digit_char n] else str_nat (n div 10) @ [digit_char (n mod 10)])"

declare str_nat.simps [simp del]

definition str_int :: "int \<Rightarrow> string" where
  "str_int i = (if i < 0 then CHR ''-'' # str_nat (nat (- i)) else str_nat (nat i))"

text \<open>\<open>int(x)\<close> on a float truncates toward zero.\<close>

definition py_int :: "real \<Rightarrow> int" where
  "py_int x = (if 0 \<le> x then \<lfloor>x\<rfloor> else \<lceil>x\<rceil>)"

section \<open>middleware/rate\_limiter.py\<close>

text \<open>
  The middleware object holds \<open>requests\<close>, a \<open>defaultdict(deque)\<close> from the client
  address to the timestamps of its admitted requests (oldest first), the \<open>limit\<close> read from
  \<open>settings.RATE_LIMIT_PER_MINUTE\<close> (any Python int) and the \<open>window\<close> of 60 seconds.
  Timestamps are the values of \<open>time.time()\<close>; they are modelled as reals, with exact
  arithmetic, and the reading of the clock is an argument of \<open>dispatch\<close>.
\<close>

record request =
  url_path :: string
  client_host :: string

record RateLimiterMiddleware =
  requests :: "string \<rightharpoonup> real list"
  limit :: int
  window :: real

definition RateLimiterMiddleware_init :: "int \<Rightarrow> RateLimiterMiddleware" where
  "RateLimiterMiddleware_init RATE_LIMIT_PER_MINUTE =
     \<lparr>requests = Map.empty, limit = RATE_LIMIT_PER_MINUTE, window = 60\<rparr>"

text \<open>Reading \<open>self.requests[k]\<close>: a key that is absent stands for an empty deque.\<close>

definition deque_of :: "(string \<rightharpoonup> real list) \<Rightarrow> string \<Rightarrow> real list" where
  "deque_of m k = (case m k of None \<Rightarrow> [] | Some d \<Rightarrow> d)"

text \<open>
  The body of the rate-limit response, and what \<open>dispatch\<close> returns: either the request
  is handed to \<open>call_next\<close>, or a \<open>JSONResponse\<close> with a status code is returned.
\<close>

record rate_limit_content =
  rl_error :: string
  rl_message :: string
  retry_after :: int

datatype response = call_next request | JSONResponse int rate_limit_content

text \<open>
  The loop \<open>while d and d[0] < current_time - self.window: d.popleft()\<close>, with the bound
  \<open>current_time - self.window\<close> as its second argument.
\<close>

fun clean_old_requests :: "real list \<Rightarrow> real \<Rightarrow> real list" where
  "clean_old_requests [] bound = []"
| "clean_old_requests (x # xs) bound =
     (if x < bound then clean_old_requests xs bound else x # xs)"

text \<open>The state right after the pruning loop of a check for \<open>client_ip\<close>.\<close>

definition after_cleaning :: "RateLimiterMiddleware \<Rightarrow> string \<Rightarrow> real \<Rightarrow> RateLimiterMiddleware" where
  "after_cleaning self client_ip current_time =
     self\<lparr>requests := (requests self)(client_ip \<mapsto>
        clean_old_requests (deque_of (requests self) client_ip) (current_time - window self))\<rparr>"

definition dispatch ::
  "RateLimiterMiddleware \<Rightarrow> request \<Rightarrow> real \<Rightarrow> RateLimiterMiddleware \<times> (exception + response)" where
  "dispatch self req current_time =
     (if url_path req = ''/health'' then (self, Inr (call_next req))
      else
        let client_ip = client_host req;
            self1 = after_cleaning self client_ip current_time;
            d = deque_of (requests self1) client_ip
        in if limit self1 \<le> int (length d) then
             (case d of
                [] \<Rightarrow> (self1, Inl (Exception IndexError ''deque index out of range''))
              | oldest # _ \<Rightarrow>
                  (self1, Inr (JSONResponse 429
                     \<lparr>rl_error = ''Rate limit exceeded'',
                      rl_message = ''Maximum '' @ str_int (limit self1) @ '' requests per minute allowed'',
                      retry_after = py_int (window self1 - (current_time - oldest))\<rparr>)))
           else
             (self1\<lparr>requests := (requests self1)(client_ip \<mapsto> d @ [current_time])\<rparr>,
              Inr (call_next req)))"

text \<open>
  A run of the middleware: the requests arrive one after the other, each with the reading
  of the clock at its check.
\<close>

fun serve :: "RateLimiterMiddleware \<Rightarrow> (request \<times> real) list \<Rightarrow> RateLimiterMiddleware" where
  "serve self [] = self"
| "serve self ((req, t) # evs) = serve (fst (dispatch self req t)) evs"

text \<open>
  The order of a record: every deque is sorted and holds no timestamp later than \<open>T\<close>.
  It is what a run keeps when the clock never steps back.
\<close>

definition ordered :: "RateLimiterMiddleware \<Rightarrow> real \<Rightarrow> bool" where
  "ordered self T = (\<forall>k d. requests self k = Some d \<longrightarrow> sorted d \<and> (\<forall>x\<in>set d. x \<le> T))"

text \<open>A request to a rate-limited route, used in the concrete runs below.\<close>

definition api_request :: request where
  "api_request = \<lparr>url_path = ''/api/v1/images/generate'', client_host = ''10.0.0.1''\<rparr>"

section \<open>services/openai\_service.py\<close>

type_synonym bytes = "nat list"

subsection \<open>models.py\<close>

datatype ImageSize = SQUARE | LANDSCAPE | PORTRAIT
datatype ImageQuality = LOW | STANDARD | HIGH | HD
datatype ImageFormat = PNG | JPEG | WEBP
datatype OpenAIModel = DALL_E_2 | DALL_E_3 | GPT_IMAGE_1

fun ImageSize_value :: "ImageSize \<Rightarrow> string" where
  "ImageSize_value SQUARE = ''1024x1024''"
| "ImageSize_value LANDSCAPE = ''1536x1024''"
| "ImageSize_value PORTRAIT = ''1024x1536''"

fun ImageQuality_value :: "ImageQuality \<Rightarrow> string" where
  "ImageQuality_value LOW = ''low''"
| "ImageQuality_value STANDARD = ''standard''"
| "ImageQuality_value HIGH = ''high''"
| "ImageQuality_value HD = ''hd''"

fun ImageFormat_value :: "ImageFormat \<Rightarrow> string" where
  "ImageFormat_value PNG = ''png''"
| "ImageFormat_value JPEG = ''jpeg''"
| "ImageFormat_value WEBP = ''webp''"

fun OpenAIModel_value :: "OpenAIModel \<Rightarrow> string" where
  "OpenAIModel_value DALL_E_2 = ''dall-e-2''"
| "OpenAIModel_value DALL_E_3 = ''dall-e-3''"
| "OpenAIModel_value GPT_IMAGE_1 = ''gpt-image-1''"

text \<open>
  \<open>ReferenceGenerationRequest\<close> has the fields of \<open>ImageGenerationRequest\<close> and
  \<open>image_urls\<close>; it is the extension of the record.
\<close>

record ImageGenerationRequest =
  prompt :: string
  model :: OpenAIModel
  req_size :: ImageSize
  quality :: ImageQuality
  req_n :: int
  response_format :: ImageFormat
  save_to_disk :: bool

record ReferenceGenerationRequest = ImageGenerationRequest +
  image_urls :: "string list"

subsection \<open>Pillow images\<close>

text \<open>
  An image of Pillow: its mode, its size (width, height) and its pixels in row order, each
  pixel the list of its band values (0 to 255), in the order of the mode's bands.
\<close>

record PIL_Image =
  mode :: string
  im_size :: "nat \<times> nat"
  pixels :: "nat list list"

text \<open>\<open>Image.new(mode, size, color)\<close>.\<close>

definition Image_new :: "string \<Rightarrow> nat \<times> nat \<Rightarrow> nat list \<Rightarrow> PIL_Image" where
  "Image_new m sz color = \<lparr>mode = m, im_size = sz, pixels = replicate (fst sz * snd sz) color\<rparr>"

text \<open>The number of bands of a mode.\<close>

definition getbands :: "string \<Rightarrow> nat" where
  "getbands m =
     (if m = ''RGBA'' \<or> m = ''RGBa'' \<or> m = ''RGBX'' \<or> m = ''CMYK'' then 4
      else if m = ''RGB'' \<or> m = ''YCbCr'' \<or> m = ''LAB'' \<or> m = ''HSV'' then 3
      else if m = ''LA'' \<or> m = ''PA'' \<or> m = ''La'' then 2
      else 1)"

text \<open>\<open>image.split()\<close>: one image of mode L for each band.\<close>

definition split :: "PIL_Image \<Rightarrow> PIL_Image list" where
  "split img =
     map (\<lambda>i. \<lparr>mode = ''L'', im_size = im_size img, pixels = map (\<lambda>p. [p ! i]) (pixels img)\<rparr>)
       [0 ..< getbands (mode img)]"

text \<open>
  Pillow stores a pixel of the modes RGB, RGBA and LA in four bytes: R, G, B and a pad byte;
  R, G, B, A; L, L, L, A.
\<close>

definition storage :: "string \<Rightarrow> nat list \<Rightarrow> nat list" where
  "storage m p =
     (if m = ''LA'' then [p ! 0, p ! 0, p ! 0, p ! 1]
      else if m = ''RGB'' then [p ! 0, p ! 1, p ! 2, 255]
      else p)"

text \<open>
  The blend of \<open>paste\<close> under a mask of mode L, for one byte: Pillow's macros
  \<open>BLEND(mask, in1, in2) = DIV255(in1 * (255 - mask) + in2 * mask)\<close> and
  \<open>DIV255(a) = (tmp = a + 128, ((tmp >> 8) + tmp) >> 8)\<close>.
\<close>

definition DIV255 :: "nat \<Rightarrow> nat" where
  "DIV255 a = (let tmp = a + 128 in (tmp div 256 + tmp) div 256)"

definition BLEND :: "nat \<Rightarrow> nat \<Rightarrow> nat \<Rightarrow> nat" where
  "BLEND weight in1 in2 = DIV255 (in1 * (255 - weight) + in2 * weight)"

text \<open>
  \<open>self.paste(im, mask=mask)\<close> for \<open>self\<close> of mode RGB and \<open>im\<close> of the same
  size and of mode RGB, RGBA or LA, the calls the service makes: Pillow converts \<open>im\<close>
  in no way then. Without a mask the stored bytes of \<open>im\<close> replace those of \<open>self\<close>;
  with a mask of mode L each byte is blended with the mask's value at the pixel as weight.
  A size that does not match raises \<open>ValueError\<close>.
\<close>

definition paste :: "PIL_Image \<Rightarrow> PIL_Image \<Rightarrow> PIL_Image option \<Rightarrow> exception + PIL_Image" where
  "paste self im mask_im =
     (if im_size im \<noteq> im_size self \<or> length (pixels im) \<noteq> length (pixels self)
      then Inl (Exception ValueError ''images do not match'')
      else case mask_im of
        None \<Rightarrow> Inr (self\<lparr>pixels := map (\<lambda>p. take 3 (storage (mode im) p)) (pixels im)\<rparr>)
      | Some m \<Rightarrow>
          if im_size m \<noteq> im_size self \<or> length (pixels m) \<noteq> length (pixels self)
          then Inl (Exception ValueError ''images do not match'')
          else Inr (self\<lparr>pixels :=
                 map (\<lambda>(p_out, p_in, a).
                        map2 (BLEND (a ! 0)) (take 3 (storage (mode self) p_out))
                          (take 3 (storage (mode im) p_in)))
                   (zip (pixels self) (zip (pixels im) (pixels m)))\<rparr>))"

subsection \<open>The world outside the service\<close>

text \<open>
  The answer of \<open>requests.get\<close>, and \<open>raise_for_status\<close>, which raises
  \<open>HTTPError\<close> for a status from 400 to 599.
\<close>

record http_response =
  status_code :: nat
  reason :: string
  resp_url :: string
  content :: bytes

definition raise_for_status :: "http_response \<Rightarrow> exception + unit" where
  "raise_for_status r =
     (if 400 \<le> status_code r \<and> status_code r < 500 then
        Inl (Exception HTTPError
          (str_nat (status_code r) @ '' Client Error: '' @ reason r @ '' for url: '' @ resp_url r))
      else if 500 \<le> status_code r \<and> status_code r < 600 then
        Inl (Exception HTTPError
          (str_nat (status_code r) @ '' Server Error: '' @ reason r @ '' for url: '' @ resp_url r))
      else Inr ())"

text \<open>An item of \<open>response.data\<close> of the provider.\<close>

record response_item =
  item_url :: "string option"
  item_b64_json :: "string option"
  item_revised_prompt :: "string option"

text \<open>
  What the service calls and cannot see into: whether the OpenAI client was built, the HTTP
  client (URL, timeout, headers, stream flag), the provider's two endpoints, the codec of
  Pillow (\<open>Image.open\<close>, \<open>convert\<close>, \<open>save\<close> as PNG), base64, the clock (the text of
  the k-th reading of \<open>datetime.now()\<close>), and the errors of opening and of writing a file.
\<close>

record world =
  client :: bool
  requests_get :: "string \<Rightarrow> nat option \<Rightarrow> (string \<times> string) list \<Rightarrow> bool \<Rightarrow> exception + http_response"
  images_generate :: "string \<Rightarrow> string \<Rightarrow> string \<Rightarrow> string \<Rightarrow> int \<Rightarrow> exception + response_item list"
  images_edit :: "string \<Rightarrow> bytes \<Rightarrow> string \<Rightarrow> string \<Rightarrow> int \<Rightarrow> exception + response_item list"
  Image_open :: "bytes \<Rightarrow> exception + PIL_Image"
  Image_convert :: "PIL_Image \<Rightarrow> string \<Rightarrow> exception + PIL_Image"
  Image_save_png :: "PIL_Image \<Rightarrow> exception + bytes"
  b64encode :: "bytes \<Rightarrow> string"
  b64decode :: "string \<Rightarrow> exception + bytes"
  strftime_now :: "nat \<Rightarrow> string"
  open_error :: "string \<Rightarrow> exception option"
  write_error :: "string \<Rightarrow> exception option"

text \<open>The files on disk and the number of readings of the clock so far.\<close>

record os_state =
  files :: "string \<rightharpoonup> bytes"
  tick :: nat

definition GENERATED_IMAGES_DIR :: string where
  "GENERATED_IMAGES_DIR = ''generated-images''"

text \<open>\<open>os.path.join\<close> of two components, on POSIX.\<close>

definition os_path_join :: "string \<Rightarrow> string \<Rightarrow> string" where
  "os_path_join a b =
     (if b \<noteq> [] \<and> hd b = CHR ''/'' then b
      else if a = [] \<or> last a = CHR ''/'' then a @ b
      else a @ ''/'' @ b)"

text \<open>
  \<open>with open(path, 'wb') as f: f.write(data)\<close>: opening may fail, and then no file is
  made; writing may fail, and then the file is there, empty.
\<close>

definition write_file :: "world \<Rightarrow> os_state \<Rightarrow> string \<Rightarrow> bytes \<Rightarrow> os_state \<times> (exception + unit)" where
  "write_file w s path data =
     (case open_error w path of
        Some e \<Rightarrow> (s, Inl e)
      | None \<Rightarrow>
         (case write_error w path of
            Some e \<Rightarrow> (s\<lparr>files := (files s)(path \<mapsto> [])\<rparr>, Inl e)
          | None \<Rightarrow> (s\<lparr>files := (files s)(path \<mapsto> data)\<rparr>, Inr ())))"

text \<open>\<open>open(path, 'rb')\<close> and reading the file.\<close>

definition read_file :: "os_state \<Rightarrow> string \<Rightarrow> exception + bytes" where
  "read_file s path =
     (case files s path of
        None \<Rightarrow> Inl (Exception FileNotFoundError (''[Errno 2] No such file or directory: '' @ path))
      | Some data \<Rightarrow> Inr data)"

text \<open>\<open>os.remove(path)\<close>: a file that is there is removed.\<close>

definition os_remove :: "os_state \<Rightarrow> string \<Rightarrow> os_state \<times> (exception + unit)" where
  "os_remove s path =
     (case files s path of
        None \<Rightarrow> (s, Inl (Exception FileNotFoundError (''[Errno 2] No such file or directory: '' @ path)))
      | Some _ \<Rightarrow> (s\<lparr>files := (files s)(path := None)\<rparr>, Inr ()))"

text \<open>\<open>datetime.now().strftime('%Y%m%d_%H%M%S')\<close>: the clock is read once more.\<close>

definition now :: "world \<Rightarrow> os_state \<Rightarrow> os_state \<times> string" where
  "now w s = (s\<lparr>tick := Suc (tick s)\<rparr>, strftime_now w (tick s))"

subsection \<open>OpenAIImageService\<close>

text \<open>
  The dictionaries the service returns. A key that a dictionary does not have is
  \<open>None\<close> here.
\<close>

record image_info =
  info_index :: nat
  info_b64_json :: "string option"
  info_revised_prompt :: "string option"
  info_filename :: "string option"
  info_file_path :: "string option"

datatype param = PStr string | PInt int | PStrs "string list"

record outcome =
  success :: bool
  message :: string
  images :: "image_info list option"
  request_params :: "(string \<times> param) list option"
  error :: "string option"

definition failure :: "string \<Rightarrow> string \<Rightarrow> outcome" where
  "failure err msg =
     \<lparr>success = False, message = msg, images = None, request_params = None, error = Some err\<rparr>"

text \<open>A string option that Python takes as true: set and not empty.\<close>

definition truthy :: "string option \<Rightarrow> bool" where
  "truthy v = (case v of None \<Rightarrow> False | Some t \<Rightarrow> t \<noteq> [])"

definition create_enhanced_prompt :: "string \<Rightarrow> nat \<Rightarrow> string" where
  "create_enhanced_prompt original_prompt ref_count =
     (if ref_count = 1 then
        ''Create a new image based on this reference: '' @ original_prompt @
        ''. Use the style, composition, and visual elements from the reference image as inspiration while generating the requested scene.''
      else
        ''Create a new image combining elements from '' @ str_nat ref_count @
        '' reference images: '' @ original_prompt @
        ''. Synthesize the visual styles, color palettes, and artistic elements from all references into a cohesive artwork.'')"

text \<open>
  The middle of \<open>_process_image_for_openai\<close>: the decoded image is brought to mode
  RGB. An RGBA image is pasted on a white background with its last band as the mask; an LA
  image is pasted on it with no mask.
\<close>

definition to_rgb :: "world \<Rightarrow> PIL_Image \<Rightarrow> exception + PIL_Image" where
  "to_rgb w img =
     (if mode img = ''RGBA'' \<or> mode img = ''LA'' then
        let background = Image_new ''RGB'' (im_size img) [255, 255, 255]
        in if mode img = ''RGBA'' then paste background img (Some (last (split img)))
           else paste background img None
      else if mode img \<noteq> ''RGB'' then Image_convert w img ''RGB''
      else Inr img)"

definition process_image_for_openai :: "world \<Rightarrow> bytes \<Rightarrow> exception + bytes" where
  "process_image_for_openai w image_data =
     (case (case Image_open w image_data of
              Inl e \<Rightarrow> Inl e
            | Inr img \<Rightarrow>
                (case to_rgb w img of
                   Inl e \<Rightarrow> Inl e
                 | Inr rgb \<Rightarrow> Image_save_png w rgb)) of
        Inl e \<Rightarrow> Inl (Exception ValueError (''Invalid image data: '' @ str e))
      | Inr processed_image \<Rightarrow> Inr processed_image)"

definition browser_headers :: "(string \<times> string) list" where
  "browser_headers =
     [(''User-Agent'', ''Mozilla/5.0 (Windows NT 10.0; Win64; x64) AppleWebKit/537.36 (KHTML, like Gecko) Chrome/91.0.4472.124 Safari/537.36''),
      (''Accept'', ''image/webp,image/apng,image/*,*/*;q=0.8''),
      (''Accept-Language'', ''en-US,en;q=0.9'')]"

definition download_image_from_url :: "world \<Rightarrow> string \<Rightarrow> exception + bytes \<times> bytes" where
  "download_image_from_url w u =
     (case requests_get w u (Some 30) browser_headers True of
        Inl e \<Rightarrow> Inl e
      | Inr resp \<Rightarrow>
         (case raise_for_status resp of
            Inl e \<Rightarrow> Inl e
          | Inr _ \<Rightarrow>
             (let raw_data = content resp
              in case process_image_for_openai w raw_data of
                   Inl e \<Rightarrow> Inl e
                 | Inr processed_image \<Rightarrow> Inr (raw_data, processed_image))))"

definition save_image_to_disk ::
  "world \<Rightarrow> os_state \<Rightarrow> string option \<Rightarrow> string \<Rightarrow> string \<Rightarrow> os_state \<times> (exception + string)" where
  "save_image_to_disk w s b64 filename_prefix fmt =
     (case b64 of
        None \<Rightarrow> (s, Inl (Exception TypeError
                  (''argument should be a bytes-like object or ASCII string, not ''
                   @ [CHR 0x27] @ ''NoneType'' @ [CHR 0x27])))
      | Some txt \<Rightarrow>
         (case b64decode w txt of
            Inl e \<Rightarrow> (s, Inl e)
          | Inr image_data \<Rightarrow>
             (let fname = filename_prefix @ ''.'' @ fmt;
                  filepath = os_path_join GENERATED_IMAGES_DIR fname
              in case write_file w s filepath image_data of
                   (s', Inl e) \<Rightarrow> (s', Inl e)
                 | (s', Inr _) \<Rightarrow> (s', Inr fname))))"

text \<open>The loop of \<open>generate_image\<close> over \<open>enumerate(response.data)\<close>.\<close>

fun generated_images ::
  "world \<Rightarrow> 'a ImageGenerationRequest_scheme \<Rightarrow> os_state \<Rightarrow> nat \<Rightarrow> response_item list
     \<Rightarrow> image_info list \<Rightarrow> os_state \<times> (exception + image_info list)" where
  "generated_images w rq s idx [] acc = (s, Inr acc)"
| "generated_images w rq s idx (image_data # rest) acc =
     (let info = \<lparr>info_index = idx, info_b64_json = item_b64_json image_data,
                   info_revised_prompt = item_revised_prompt image_data,
                   info_filename = None, info_file_path = None\<rparr>
      in if save_to_disk rq then
           (case now w s of (s1, stamp) \<Rightarrow>
              (case save_image_to_disk w s1 (item_b64_json image_data)
                      (''generated_'' @ stamp @ ''_'' @ str_nat idx)
                      (ImageFormat_value (response_format rq)) of
                 (s2, Inl e) \<Rightarrow> (s2, Inl e)
               | (s2, Inr fname) \<Rightarrow>
                   generated_images w rq s2 (Suc idx) rest
                     (acc @ [info\<lparr>info_filename := Some fname,
                                   info_file_path := Some (GENERATED_IMAGES_DIR @ ''/'' @ fname)\<rparr>])))
         else generated_images w rq s (Suc idx) rest (acc @ [info]))"

text \<open>The body of the \<open>try\<close> of \<open>generate_image\<close>, and the method with its handler.\<close>

definition generate_image_try ::
  "world \<Rightarrow> os_state \<Rightarrow> 'a ImageGenerationRequest_scheme \<Rightarrow> os_state \<times> (exception + outcome)" where
  "generate_image_try w s rq =
     (if \<not> client w then
        (s, Inr (failure ''OpenAI API key not configured''
                   ''Please set OPENAI_API_KEY environment variable''))
      else
        case images_generate w (OpenAIModel_value (model rq)) (prompt rq)
               (ImageSize_value (req_size rq)) (ImageQuality_value (quality rq)) (req_n rq) of
          Inl e \<Rightarrow> (s, Inl e)
        | Inr response_data \<Rightarrow>
           (case generated_images w rq s 0 response_data [] of
              (s', Inl e) \<Rightarrow> (s', Inl e)
            | (s', Inr imgs) \<Rightarrow>
               (s', Inr \<lparr>success = True,
                    message = ''Successfully generated '' @ str_nat (length imgs) @ '' image(s)'',
                    images = Some imgs,
                    request_params = Some
                      [(''model'', PStr (OpenAIModel_value (model rq))),
                       (''prompt'', PStr (prompt rq)),
                       (''size'', PStr (ImageSize_value (req_size rq))),
                       (''quality'', PStr (ImageQuality_value (quality rq))),
                       (''n'', PInt (req_n rq))],
                    error = None\<rparr>)))"

definition generate_image ::
  "world \<Rightarrow> os_state \<Rightarrow> 'a ImageGenerationRequest_scheme \<Rightarrow> os_state \<times> outcome" where
  "generate_image w s rq =
     (case generate_image_try w s rq of
        (s', Inl e) \<Rightarrow> (s', failure (str e) ''Failed to generate image'')
      | (s', Inr out) \<Rightarrow> (s', out))"

text \<open>
  One item of the answer of the edit endpoint: the base64 text it yields, \<open>None\<close> when
  the loop goes on to the next item, or the exception of the download.
\<close>

definition item_b64 :: "world \<Rightarrow> response_item \<Rightarrow> exception + string option" where
  "item_b64 w image_data_response =
     (if truthy (item_url image_data_response) then
        (case requests_get w (the (item_url image_data_response)) None [] False of
           Inl e \<Rightarrow> Inl e
         | Inr img_response \<Rightarrow>
            (case raise_for_status img_response of
               Inl e \<Rightarrow> Inl e
             | Inr _ \<Rightarrow> Inr (Some (b64encode w (content img_response)))))
      else if truthy (item_b64_json image_data_response) then
        Inr (item_b64_json image_data_response)
      else Inr None)"

text \<open>The loop of \<open>generate_with_reference_urls\<close> over \<open>enumerate(response.data)\<close>.\<close>

fun reference_images ::
  "world \<Rightarrow> ReferenceGenerationRequest \<Rightarrow> os_state \<Rightarrow> nat \<Rightarrow> response_item list
     \<Rightarrow> image_info list \<Rightarrow> os_state \<times> (exception + image_info list)" where
  "reference_images w rq s idx [] acc = (s, Inr acc)"
| "reference_images w rq s idx (image_data_response # rest) acc =
     (case item_b64 w image_data_response of
        Inl e \<Rightarrow> (s, Inl e)
      | Inr None \<Rightarrow> reference_images w rq s (Suc idx) rest acc
      | Inr (Some b64_data) \<Rightarrow>
         (let info = \<lparr>info_index = idx, info_b64_json = Some b64_data,
                       info_revised_prompt = None, info_filename = None, info_file_path = None\<rparr>
          in if save_to_disk rq then
               (case now w s of (s1, stamp) \<Rightarrow>
                  (case save_image_to_disk w s1 (Some b64_data)
                          (''reference_'' @ stamp @ ''_'' @ str_nat idx)
                          (ImageFormat_value (response_format rq)) of
                     (s2, Inl e) \<Rightarrow> (s2, Inl e)
                   | (s2, Inr fname) \<Rightarrow>
                       reference_images w rq s2 (Suc idx) rest
                         (acc @ [info\<lparr>info_filename := Some fname,
                                       info_file_path := Some (GENERATED_IMAGES_DIR @ ''/'' @ fname)\<rparr>])))
             else reference_images w rq s (Suc idx) rest (acc @ [info])))"

text \<open>
  The submission to the edit endpoint, inside \<open>try ... finally\<close>: the temporary file
  is opened and sent, and whatever happens \<open>os.remove\<close> is called, its own exception
  dropped.
\<close>

definition submit_edit ::
  "world \<Rightarrow> os_state \<Rightarrow> ReferenceGenerationRequest \<Rightarrow> string \<Rightarrow> string
     \<Rightarrow> os_state \<times> (exception + response_item list)" where
  "submit_edit w s rq temp_path enhanced_prompt =
     (let r = (case read_file s temp_path of
                 Inl e \<Rightarrow> Inl e
               | Inr image_file \<Rightarrow>
                   images_edit w (OpenAIModel_value (model rq)) image_file enhanced_prompt
                     (ImageSize_value (req_size rq)) (req_n rq))
      in (fst (os_remove s temp_path), r))"

definition generate_with_reference_urls_try ::
  "world \<Rightarrow> os_state \<Rightarrow> ReferenceGenerationRequest \<Rightarrow> os_state \<times> (exception + outcome)" where
  "generate_with_reference_urls_try w s rq =
     (if \<not> client w then
        (s, Inr (failure ''OpenAI API key not configured''
                   ''Please set OPENAI_API_KEY environment variable''))
      else if image_urls rq = [] then
        (s, Inr (failure ''No reference images provided''
                   ''Please provide at least one reference image URL''))
      else
        case download_image_from_url w (hd (image_urls rq)) of
          Inl e \<Rightarrow> (s, Inl e)
        | Inr (raw_data, processed_image_file) \<Rightarrow>
           (let enhanced_prompt = create_enhanced_prompt (prompt rq) (length (image_urls rq))
            in case now w s of (s1, stamp) \<Rightarrow>
              (let temp_filename = ''temp_ref_'' @ stamp @ ''.png'';
                   temp_path = os_path_join GENERATED_IMAGES_DIR temp_filename
               in case write_file w s1 temp_path processed_image_file of
                    (s2, Inl e) \<Rightarrow> (s2, Inl e)
                  | (s2, Inr _) \<Rightarrow>
                     (case submit_edit w s2 rq temp_path enhanced_prompt of
                        (s3, Inl e) \<Rightarrow> (s3, Inl e)
                      | (s3, Inr response_data) \<Rightarrow>
                         (case reference_images w rq s3 0 response_data [] of
                            (s4, Inl e) \<Rightarrow> (s4, Inl e)
                          | (s4, Inr imgs) \<Rightarrow>
                             (s4, Inr \<lparr>success = True,
                                message = ''Successfully generated '' @ str_nat (length imgs)
                                  @ '' image(s) using '' @ str_nat (length (image_urls rq))
                                  @ '' reference(s)'',
                                images = Some imgs,
                                request_params = Some
                                  [(''model'', PStr (OpenAIModel_value (model rq))),
                                   (''original_prompt'', PStr (prompt rq)),
                                   (''enhanced_prompt'', PStr enhanced_prompt),
                                   (''size'', PStr (ImageSize_value (req_size rq))),
                                   (''n'', PInt (req_n rq)),
                                   (''reference_count'', PInt (int (length (image_urls rq)))),
                                   (''reference_urls'', PStrs (image_urls rq)),
                                   (''note'', PStr ''Quality parameter not supported by edit endpoint'')],
                                error = None\<rparr>))))))"

definition generate_with_reference_urls ::
  "world \<Rightarrow> os_state \<Rightarrow> ReferenceGenerationRequest \<Rightarrow> os_state \<times> outcome" where
  "generate_with_reference_urls w s rq =
     (case generate_with_reference_urls_try w s rq of
        (s', Inl e) \<Rightarrow> (s', failure (str e) ''Failed to generate image with references'')
      | (s', Inr out) \<Rightarrow> (s', out))"

subsection \<open>Words of the specification\<close>



subsection \<open>A concrete world\<close>

text \<open>
  A world in which the first reference and the provider's result URL can be fetched and every
  other URL refuses the connection, with a codec that keeps the bytes; a request with two
  reference URLs; and variants of the HTTP client and of the provider's answer.
\<close>

definition demo_world :: world where
  "demo_world =
     \<lparr>client = True,
      requests_get = (\<lambda>u t h st.
         if u = ''https://refs.example/a.png'' \<or> u = ''https://cdn.example/out.png''
         then Inr \<lparr>status_code = 200, reason = ''OK'', resp_url = u, content = [1, 2, 3]\<rparr>
         else Inl (Exception RequestException ''Connection refused'')),
      images_generate = (\<lambda>m p sz q k.
         Inr [\<lparr>item_url = None, item_b64_json = Some ''QUJD'', item_revised_prompt = None\<rparr>]),
      images_edit = (\<lambda>m f p sz k.
         Inr [\<lparr>item_url = None, item_b64_json = Some ''QUJD'', item_revised_prompt = None\<rparr>]),
      Image_open = (\<lambda>b. Inr \<lparr>mode = ''RGB'', im_size = (1, 1), pixels = [b]\<rparr>),
      Image_convert = (\<lambda>i m. Inr (i\<lparr>mode := m\<rparr>)),
      Image_save_png = (\<lambda>i. Inr (concat (pixels i))),
      b64encode = (\<lambda>b. ''AQID''),
      b64decode = (\<lambda>t. Inr [65, 66, 67]),
      strftime_now = (\<lambda>k. ''20240101_120000''),
      open_error = (\<lambda>p. None),
      write_error = (\<lambda>p. None)\<rparr>"

definition demo_request :: ReferenceGenerationRequest where
  "demo_request =
     \<lparr>prompt = ''a cat'', model = GPT_IMAGE_1, req_size = LANDSCAPE, quality = HIGH, req_n = 1,
      response_format = PNG, save_to_disk = False,
      image_urls = [''https://refs.example/a.png'', ''https://refs.example/b.png'']\<rparr>"

definition demo_state :: os_state where
  "demo_state = \<lparr>files = Map.empty, tick = 0\<rparr>"

text \<open>The definitions that a concrete evaluation unfolds.\<close>

lemmas demo_defs = demo_world_def demo_request_def demo_state_def

lemmas service_defs =
  generate_with_reference_urls_def generate_with_reference_urls_try_def
  download_image_from_url_def process_image_for_openai_def to_rgb_def raise_for_status_def
  now_def write_file_def submit_edit_def read_file_def os_remove_def item_b64_def truthy_def
  os_path_join_def GENERATED_IMAGES_DIR_def failure_def Let_def

definition offline_get :: "string \<Rightarrow> nat option \<Rightarrow> (string \<times> string) list \<Rightarrow> bool \<Rightarrow> exception + http_response" where
  "offline_get u t h st = Inl (Exception RequestException ''Connection refused'')"

definition reachable_get :: "string \<Rightarrow> nat option \<Rightarrow> (string \<times> string) list \<Rightarrow> bool \<Rightarrow> exception + http_response" where
  "reachable_get u t h st =
     (if u = ''https://refs.example/b.png'' \<and> (t, h, st) = (Some 30, browser_headers, True)
      then Inr \<lparr>status_code = 200, reason = ''OK'', resp_url = u, content = [4, 5, 6]\<rparr>
      else requests_get demo_world u t h st)"


section \<open>The rate limiter: lemmas\<close>

lemma clean_old_requests_suffix: "\<exists>pre. xs = pre @ clean_old_requests xs b"
proof (induction xs)
  case Nil
  show ?case by simp
next
  case (Cons x xs)
  then obtain pre where p: "xs = pre @ clean_old_requests xs b" by blast
  show ?case
  proof (cases "x < b")
    case True
    have "x # xs = (x # pre) @ clean_old_requests xs b" using p by simp
    then show ?thesis using True by (metis clean_old_requests.simps(2))
  next
    case False
    then show ?thesis by (metis append_Nil clean_old_requests.simps(2))
  qed
qed

lemma clean_old_requests_head: "clean_old_requests xs b = y # ys \<Longrightarrow> b \<le> y"
  by (induction xs) (auto split: if_splits)

lemma clean_old_requests_length: "length (clean_old_requests xs b) \<le> length xs"
  by (induction xs) auto

lemma clean_old_requests_sorted: "sorted xs \<Longrightarrow> sorted (clean_old_requests xs b)"
  by (induction xs) auto

lemma clean_old_requests_set: "set (clean_old_requests xs b) \<subseteq> set xs"
  by (induction xs) auto

lemma clean_old_requests_bound:
  "sorted xs \<Longrightarrow> x \<in> set (clean_old_requests xs b) \<Longrightarrow> b \<le> x"
  by (induction xs) (auto split: if_splits)


lemma py_int_nonneg: "0 \<le> x \<Longrightarrow> 0 \<le> py_int x"
  by (simp add: py_int_def)


lemma deque_of_upd [simp]: "deque_of (m(k \<mapsto> d)) k = d"
  by (simp add: deque_of_def)

lemma deque_of_upd_other [simp]: "k' \<noteq> k \<Longrightarrow> deque_of (m(k \<mapsto> d)) k' = deque_of m k'"
  by (simp add: deque_of_def)

lemma ordered_deque: "ordered self T \<Longrightarrow> sorted (deque_of (requests self) k) \<and> (\<forall>x\<in>set (deque_of (requests self) k). x \<le> T)"
  by (auto simp: ordered_def deque_of_def split: option.splits)

lemma ordered_mono: "ordered self T \<Longrightarrow> T \<le> T' \<Longrightarrow> ordered self T'"
  unfolding ordered_def by (meson order_trans)

lemma ordered_after_cleaning: "ordered self T \<Longrightarrow> ordered (after_cleaning self k t) T"
  using ordered_deque[of self T k] clean_old_requests_sorted clean_old_requests_set
  unfolding ordered_def after_cleaning_def
  by (auto split: if_splits) blast+

lemma ordered_dispatch:
  assumes "ordered self T" and "T \<le> t"
  shows "ordered (fst (dispatch self req t)) t"
proof -
  let ?k = "client_host req"
  let ?s1 = "after_cleaning self ?k t"
  have o1: "ordered ?s1 t"
    using ordered_mono[OF ordered_after_cleaning[OF assms(1)] assms(2)] .
  have d1: "sorted (deque_of (requests ?s1) ?k) \<and> (\<forall>x\<in>set (deque_of (requests ?s1) ?k). x \<le> t)"
    using ordered_deque[OF o1] .
  have app: "ordered (?s1\<lparr>requests := (requests ?s1)(?k \<mapsto> deque_of (requests ?s1) ?k @ [t])\<rparr>) t"
    using o1 d1 unfolding ordered_def by (auto simp: sorted_append)
  show ?thesis
    using o1 app ordered_mono[OF assms]
    by (auto simp: dispatch_def Let_def split: list.splits)
qed

lemma ordered_serve:
  "ordered self T \<Longrightarrow> sorted (T # map snd evs @ [t]) \<Longrightarrow> ordered (serve self evs) t"
proof (induction evs arbitrary: self T)
  case Nil
  then show ?case using ordered_mono by simp
next
  case (Cons ev evs)
  obtain req u where ev: "ev = (req, u)" by (cases ev)
  have "T \<le> u" using Cons.prems(2) ev by simp
  then have "ordered (fst (dispatch self req u)) u"
    using ordered_dispatch Cons.prems(1) by blast
  moreover have "sorted (u # map snd evs @ [t])" using Cons.prems(2) ev by simp
  ultimately show ?case using Cons.IH ev by simp
qed

lemma ordered_init: "ordered (RateLimiterMiddleware_init rate) T"
  by (simp add: ordered_def RateLimiterMiddleware_init_def)

lemma window_dispatch [simp]: "window (fst (dispatch self req t)) = window self"
  by (auto simp: dispatch_def after_cleaning_def Let_def split: list.splits)

lemma limit_dispatch [simp]: "limit (fst (dispatch self req t)) = limit self"
  by (auto simp: dispatch_def after_cleaning_def Let_def split: list.splits)

lemma window_serve [simp]: "window (serve self evs) = window self"
  by (induction evs arbitrary: self) auto

lemma limit_serve [simp]: "limit (serve self evs) = limit self"
  by (induction evs arbitrary: self) auto


lemma str_int_1: "str_int 1 = ''1''"
  by code_simp

subsection \<open>The sliding window\<close>

text \<open>
  C1 (as amended). In a run that starts with no record and in which the readings of the
  clock never decrease, right after the pruning loop of a check at time \<open>t\<close> every
  timestamp left in the checked key's deque is at least \<open>t - 60\<close>; and whenever a
  request is admitted, the deque of its key, the appended timestamp included, holds at most
  \<open>limit\<close> timestamps.
\<close>

theorem sliding_window_invariant:
  assumes "sorted (map snd evs @ [t])"
  shows "(\<forall>ts \<in> set (deque_of (requests (after_cleaning (serve (RateLimiterMiddleware_init rate) evs) k t)) k).
            t - 60 \<le> ts)
       \<and> (\<forall>req self'. dispatch (serve (RateLimiterMiddleware_init rate) evs) req t = (self', Inr (call_next req))
             \<and> url_path req \<noteq> ''/health''
            \<longrightarrow> int (length (deque_of (requests self') (client_host req))) \<le> rate)"
proof -
  let ?s = "serve (RateLimiterMiddleware_init rate) evs"
  define T where "T = (if evs = [] then t else snd (hd evs))"
  have "sorted (T # map snd evs @ [t])"
    using assms by (cases evs) (auto simp: T_def)
  then have o: "ordered ?s t"
    using ordered_serve[OF ordered_init] by blast
  have w: "window ?s = 60" by (simp add: RateLimiterMiddleware_init_def)
  have l: "limit ?s = rate" by (simp add: RateLimiterMiddleware_init_def)
  have p1: "\<forall>ts \<in> set (deque_of (requests (after_cleaning ?s k t)) k). t - 60 \<le> ts"
    using clean_old_requests_bound[of "deque_of (requests ?s) k" _ "t - 60"] ordered_deque[OF o, of k] w
    by (simp add: after_cleaning_def)
  have p2: "\<forall>req self'. dispatch ?s req t = (self', Inr (call_next req)) \<and> url_path req \<noteq> ''/health''
            \<longrightarrow> int (length (deque_of (requests self') (client_host req))) \<le> rate"
    using l by (auto simp: dispatch_def Let_def after_cleaning_def split: if_splits list.splits)
  show ?thesis using p1 p2 by blast
qed

text \<open>
  The theorem at a run of two requests at times 0 and 10 and a check at time 65: the
  timestamp 0 is pruned and 10 stays.
\<close>

theorem sliding_window_invariant_witness:
  "sorted (map snd [(api_request, 0), (api_request, 10)] @ [65::real])
   \<and> deque_of (requests (after_cleaning
         (serve (RateLimiterMiddleware_init 60) [(api_request, 0), (api_request, 10)])
         ''10.0.0.1'' 65)) ''10.0.0.1'' = [10]
   \<and> list_all (\<lambda>ts. 65 - 60 \<le> ts) (deque_of (requests (after_cleaning
         (serve (RateLimiterMiddleware_init 60) [(api_request, 0), (api_request, 10)])
         ''10.0.0.1'' 65)) ''10.0.0.1'')"
proof -
  have h: "sorted (map snd [(api_request, 0), (api_request, 10)] @ [65::real])" by simp
  have v: "deque_of (requests (after_cleaning
         (serve (RateLimiterMiddleware_init 60) [(api_request, 0), (api_request, 10)])
         ''10.0.0.1'' 65)) ''10.0.0.1'' = [10]"
    by (simp add: api_request_def RateLimiterMiddleware_init_def dispatch_def after_cleaning_def
        Let_def deque_of_def)
  show ?thesis
    using h v sliding_window_invariant[OF h, of 60 "''10.0.0.1''"] by (simp add: list_all_iff)
qed

text \<open>
  C1 as it is written fails when the clock steps back, which \<open>time.time()\<close> may do:
  after requests at the readings 100 and 50, the deque is \<open>[100, 50]\<close>; the check at
  120 prunes from the front only, stops at 100, and leaves 50, which is older than
  \<open>120 - 60\<close>.
\<close>

theorem sliding_window_counterexample:
  "deque_of (requests (after_cleaning
       (serve (RateLimiterMiddleware_init 60) [(api_request, 100), (api_request, 50)])
       ''10.0.0.1'' 120)) ''10.0.0.1'' = [100, 50]
   \<and> (50::real) < 120 - 60"
  by (simp add: api_request_def RateLimiterMiddleware_init_def dispatch_def after_cleaning_def
      Let_def deque_of_def)

subsection \<open>The admission check\<close>

text \<open>
  What a check on a rate-limited route does when the pruned deque \<open>d\<close> is not empty
  or is shorter than the limit: at \<open>limit \<le> length d\<close> the answer is the 429 response
  with \<open>retry_after = int(window - (t - d[0]))\<close>, which is not negative, and nothing is
  appended; below the limit the reading of the clock is appended and the request goes on to
  \<open>call_next\<close>.
\<close>

lemma admission_check:
  assumes "url_path req \<noteq> ''/health''"
    and "d = clean_old_requests (deque_of (requests self) (client_host req)) (t - window self)"
  shows "(limit self \<le> int (length d) \<and> d \<noteq> [] \<longrightarrow>
            dispatch self req t =
              (after_cleaning self (client_host req) t,
               Inr (JSONResponse 429
                 \<lparr>rl_error = ''Rate limit exceeded'',
                  rl_message = ''Maximum '' @ str_int (limit self) @ '' requests per minute allowed'',
                  retry_after = py_int (window self - (t - hd d))\<rparr>))
            \<and> 0 \<le> py_int (window self - (t - hd d)))
       \<and> (int (length d) < limit self \<longrightarrow>
            dispatch self req t =
              (self\<lparr>requests := (requests self)(client_host req \<mapsto> d @ [t])\<rparr>, Inr (call_next req)))"
proof -
  have nn: "d \<noteq> [] \<Longrightarrow> 0 \<le> py_int (window self - (t - hd d))"
  proof -
    assume "d \<noteq> []"
    then obtain y ys where "d = y # ys" by (cases d) auto
    then have "t - window self \<le> hd d" using clean_old_requests_head assms(2) by (metis list.sel(1))
    then show ?thesis by (intro py_int_nonneg) simp
  qed
  show ?thesis
    using assms nn
    by (auto simp: dispatch_def Let_def after_cleaning_def split: list.splits)
qed

text \<open>
  C2. With \<open>RATE_LIMIT_PER_MINUTE = 0\<close> the first request of a client finds an empty
  deque, whose length 0 reaches the limit; building the 429 response reads
  \<open>self.requests[client_ip][0]\<close> and raises \<open>IndexError\<close> instead of rejecting.
\<close>

theorem zero_limit_raises:
  "dispatch (RateLimiterMiddleware_init 0) api_request 1000 =
     (after_cleaning (RateLimiterMiddleware_init 0) ''10.0.0.1'' 1000,
      Inl (Exception IndexError ''deque index out of range''))"
  by (simp add: dispatch_def api_request_def RateLimiterMiddleware_init_def after_cleaning_def Let_def deque_of_def)

subsection \<open>The 61st request\<close>






subsection \<open>Frame of a check\<close>

text \<open>
  C10. A check that answers with a JSON response answers 429 and leaves in the deque of its
  key exactly what the pruning loop left, a suffix of the old deque, with no timestamp
  appended; limit and window stay; and no check, whatever its outcome, changes the entry of
  another key.
\<close>

theorem rejection_consumes_no_capacity:
  "(dispatch self req t = (self', Inr (JSONResponse code c)) \<longrightarrow>
      code = 429
      \<and> requests self' (client_host req) =
          Some (clean_old_requests (deque_of (requests self) (client_host req)) (t - window self))
      \<and> (\<exists>pre. deque_of (requests self) (client_host req) = pre @ deque_of (requests self') (client_host req))
      \<and> limit self' = limit self \<and> window self' = window self)
   \<and> (k \<noteq> client_host req \<longrightarrow> requests (fst (dispatch self req t)) k = requests self k)"
proof -
  have other: "k \<noteq> client_host req \<Longrightarrow> requests (fst (dispatch self req t)) k = requests self k"
    by (auto simp: dispatch_def Let_def after_cleaning_def split: list.splits)
  have rej: "dispatch self req t = (self', Inr (JSONResponse code c)) \<Longrightarrow>
      code = 429 \<and> self' = after_cleaning self (client_host req) t"
    by (auto simp: dispatch_def Let_def split: if_splits list.splits)
  show ?thesis
    using other rej clean_old_requests_suffix[of "deque_of (requests self) (client_host req)" "t - window self"]
    by (auto simp: after_cleaning_def)
qed

text \<open>
  The theorem at a state with two clients, limit 1, and a check of the first client at
  time 62: the timestamp 0 is pruned, 5 stays, the answer is 429 and the second client's
  deque is untouched.
\<close>

theorem rejection_consumes_no_capacity_witness:
  "dispatch \<lparr>requests = [''10.0.0.1'' \<mapsto> [0, 5], ''10.0.0.2'' \<mapsto> [7]], limit = 1, window = 60\<rparr> api_request 62
     = (\<lparr>requests = [''10.0.0.1'' \<mapsto> [5], ''10.0.0.2'' \<mapsto> [7]], limit = 1, window = 60\<rparr>,
        Inr (JSONResponse 429 \<lparr>rl_error = ''Rate limit exceeded'',
           rl_message = ''Maximum 1 requests per minute allowed'', retry_after = 3\<rparr>))
   \<and> requests \<lparr>requests = [''10.0.0.1'' \<mapsto> [5], ''10.0.0.2'' \<mapsto> [7]], limit = 1, window = 60\<rparr> ''10.0.0.1''
       = Some (clean_old_requests [0, 5] (62 - 60))
   \<and> requests \<lparr>requests = [''10.0.0.1'' \<mapsto> [5], ''10.0.0.2'' \<mapsto> [7]], limit = 1, window = 60\<rparr> ''10.0.0.2''
       = Some [7]"
proof -
  let ?s = "\<lparr>requests = [''10.0.0.1'' \<mapsto> [0, 5], ''10.0.0.2'' \<mapsto> [7]], limit = 1, window = 60\<rparr>"
  let ?s' = "\<lparr>requests = [''10.0.0.1'' \<mapsto> [5], ''10.0.0.2'' \<mapsto> [7]], limit = 1, window = 60\<rparr>"
  let ?c = "\<lparr>rl_error = ''Rate limit exceeded'',
           rl_message = ''Maximum 1 requests per minute allowed'', retry_after = 3\<rparr>"
  have m: "[''10.0.0.1'' \<mapsto> [0::real, 5], ''10.0.0.2'' \<mapsto> [7], ''10.0.0.1'' \<mapsto> [5]]
         = [''10.0.0.1'' \<mapsto> [5], ''10.0.0.2'' \<mapsto> [7]]"
    by (rule ext) simp
  have d: "dispatch ?s api_request 62 = (?s', Inr (JSONResponse 429 ?c))"
    by (simp add: dispatch_def Let_def after_cleaning_def api_request_def deque_of_def py_int_def str_int_1 m)
  show ?thesis
    using d rejection_consumes_no_capacity[of ?s api_request 62 ?s' 429 ?c "''10.0.0.2''"]
    by (simp add: api_request_def deque_of_def)
qed

section \<open>The image service: lemmas\<close>

subsection \<open>Flattening of transparency\<close>

text \<open>Pillow's division by 255 is exact on multiples of 255, so a weight of 0 keeps the
  background and a weight of 255 takes the pasted byte.\<close>

lemma DIV255_exact: "c \<le> 255 \<Longrightarrow> DIV255 (c * 255) = c"
  by (simp add: DIV255_def Let_def)

lemma BLEND_opaque: "i \<le> 255 \<Longrightarrow> BLEND 255 b i = i"
  using DIV255_exact[of i] by (simp add: BLEND_def)

lemma BLEND_transparent: "b \<le> 255 \<Longrightarrow> BLEND 0 b i = b"
  using DIV255_exact[of b] by (simp add: BLEND_def)

text \<open>
  An RGBA image: every pixel \<open>(r, g, b, a)\<close> becomes the blend of white and its colour
  with the weight \<open>a\<close>; a pixel with \<open>a = 0\<close> becomes white and one with
  \<open>a = 255\<close> keeps its colour.
\<close>

lemma to_rgb_RGBA_pixel:
  assumes "mode img = ''RGBA''" and "length (pixels img) = fst (im_size img) * snd (im_size img)"
    and "k < length (pixels img)" and "pixels img ! k = [r, g, b, a]"
  shows "\<exists>out. to_rgb w img = Inr out \<and> mode out = ''RGB'' \<and> im_size out = im_size img
           \<and> pixels out ! k = [BLEND a 255 r, BLEND a 255 g, BLEND a 255 b]"
  using assms
  by (simp add: to_rgb_def Image_new_def paste_def storage_def Let_def split_def getbands_def
      last_map)

lemma to_rgb_RGBA_transparent_opaque:
  assumes "mode img = ''RGBA''" and "length (pixels img) = fst (im_size img) * snd (im_size img)"
    and "k < length (pixels img)" and "pixels img ! k = [r, g, b, a]"
    and "r \<le> 255" and "g \<le> 255" and "b \<le> 255"
  shows "\<exists>out. to_rgb w img = Inr out
           \<and> (a = 0 \<longrightarrow> pixels out ! k = [255, 255, 255])
           \<and> (a = 255 \<longrightarrow> pixels out ! k = [r, g, b])"
  using to_rgb_RGBA_pixel[OF assms(1-4), of w] assms(5-7)
  by (auto simp: BLEND_transparent BLEND_opaque)

text \<open>
  C4. An image of mode LA is pasted on the white background without a mask, so its alpha
  band is not used: the single pixel with luminance 0 and alpha 0, fully transparent, comes
  out black \<open>(0, 0, 0)\<close> and not white.
\<close>

theorem la_transparent_pixel_stays_dark:
  "to_rgb w \<lparr>mode = ''LA'', im_size = (1, 1), pixels = [[0, 0]]\<rparr>
     = Inr \<lparr>mode = ''RGB'', im_size = (1, 1), pixels = [[0, 0, 0]]\<rparr>"
  by (simp add: to_rgb_def Image_new_def paste_def storage_def Let_def)

subsection \<open>The temporary file\<close>












subsection \<open>Unification of the provider's answer\<close>






lemma success_failure [simp]: "success (failure x y) = False"
  by (simp add: failure_def)

lemma read_written:
  "read_file (s\<lparr>files := (files s)(path \<mapsto> data)\<rparr>) path = Inr data"
  by (simp add: read_file_def)




subsection \<open>Only the first reference is fetched\<close>

text \<open>
  C6 as it is written fails: the request names two reference URLs and the second one refuses
  the connection; the service downloads \<open>image_urls[0]\<close> only, never asks for the
  second, and returns a success outcome with one image.
\<close>

theorem second_reference_counterexample:
  "requests_get demo_world ''https://refs.example/b.png'' (Some 30) browser_headers True
     = Inl (Exception RequestException ''Connection refused'')
   \<and> success (snd (generate_with_reference_urls demo_world demo_state demo_request)) = True
   \<and> images (snd (generate_with_reference_urls demo_world demo_state demo_request))
     = Some [\<lparr>info_index = 0, info_b64_json = Some ''QUJD'', info_revised_prompt = None,
              info_filename = None, info_file_path = None\<rparr>]"
  by (simp add: demo_defs service_defs)

lemma item_b64_other_get:
  "\<forall>v t h st. v = u \<or> (t, h, st) \<noteq> (Some 30, browser_headers, True)
       \<longrightarrow> g v t h st = requests_get w v t h st
    \<Longrightarrow> item_b64 (w\<lparr>requests_get := g\<rparr>) it = item_b64 w it"
  by (simp add: item_b64_def cong: sum.case_cong)

lemma write_file_other_get:
  "write_file (w\<lparr>requests_get := g\<rparr>) s path data = write_file w s path data"
  by (simp add: write_file_def cong: option.case_cong)

lemma save_image_other_get:
  "save_image_to_disk (w\<lparr>requests_get := g\<rparr>) s b64 pre fmt = save_image_to_disk w s b64 pre fmt"
  by (simp add: save_image_to_disk_def write_file_other_get cong: sum.case_cong option.case_cong)

lemma now_other_get: "now (w\<lparr>requests_get := g\<rparr>) s = now w s"
  by (simp add: now_def)

lemma submit_edit_other_get:
  "submit_edit (w\<lparr>requests_get := g\<rparr>) s rq path enhanced = submit_edit w s rq path enhanced"
  by (simp add: submit_edit_def cong: sum.case_cong)

lemma reference_images_other_get:
  assumes "\<forall>v t h st. v = u \<or> (t, h, st) \<noteq> (Some 30, browser_headers, True)
       \<longrightarrow> g v t h st = requests_get w v t h st"
  shows "reference_images (w\<lparr>requests_get := g\<rparr>) rq s idx items acc = reference_images w rq s idx items acc"
proof (induction items arbitrary: s idx acc)
  case Nil
  show ?case by simp
next
  case (Cons it rest)
  show ?case
    using item_b64_other_get[OF assms, of it] Cons.IH
    by (simp add: save_image_other_get now_def Let_def split: sum.splits option.splits prod.splits)
qed

lemma process_image_other_get:
  "process_image_for_openai (w\<lparr>requests_get := g\<rparr>) image_data = process_image_for_openai w image_data"
  by (simp add: process_image_for_openai_def to_rgb_def cong: sum.case_cong if_cong)

lemma download_other_get:
  assumes "\<forall>v t h st. v = u \<or> (t, h, st) \<noteq> (Some 30, browser_headers, True)
       \<longrightarrow> g v t h st = requests_get w v t h st"
  shows "download_image_from_url (w\<lparr>requests_get := g\<rparr>) u = download_image_from_url w u"
  using assms
  by (simp add: download_image_from_url_def process_image_other_get Let_def cong: sum.case_cong)

text \<open>
  C6 (as amended). A reference call fetches its first URL only. When the download of the
  first URL fails, the call returns one failure outcome, with no images and the text of the
  exception as error. What a fetch of any other reference URL would give does not change the
  result of the call: an HTTP client that differs only in its answers to reference fetches
  (timeout 30, the browser headers, streaming) of other URLs gives the same result.
\<close>

theorem only_first_reference_is_fetched:
  assumes "client w" and "image_urls rq = u # us"
  shows "(download_image_from_url w u = Inl e \<longrightarrow>
            generate_with_reference_urls w s rq
              = (s, failure (str e) ''Failed to generate image with references''))
       \<and> ((\<forall>v t h st. v = u \<or> (t, h, st) \<noteq> (Some 30, browser_headers, True)
               \<longrightarrow> g v t h st = requests_get w v t h st) \<longrightarrow>
            generate_with_reference_urls (w\<lparr>requests_get := g\<rparr>) s rq
              = generate_with_reference_urls w s rq)"
proof -
  have a: "generate_with_reference_urls w s rq
              = (s, failure (str e) ''Failed to generate image with references'')"
    if "download_image_from_url w u = Inl e"
    using that assms
    by (simp add: generate_with_reference_urls_def generate_with_reference_urls_try_def)
  have b: "generate_with_reference_urls (w\<lparr>requests_get := g\<rparr>) s rq
              = generate_with_reference_urls w s rq"
    if h: "\<forall>v t h st. v = u \<or> (t, h, st) \<noteq> (Some 30, browser_headers, True)
               \<longrightarrow> g v t h st = requests_get w v t h st"
  proof -
    have "generate_with_reference_urls_try (w\<lparr>requests_get := g\<rparr>) s rq
        = generate_with_reference_urls_try w s rq"
      using assms(2) download_other_get[OF h] reference_images_other_get[OF h]
      by (simp add: generate_with_reference_urls_try_def now_other_get write_file_other_get
          submit_edit_other_get Let_def cong: sum.case_cong prod.case_cong if_cong)
    then show ?thesis by (simp add: generate_with_reference_urls_def)
  qed
  show ?thesis using a b by blast
qed

text \<open>
  The theorem in the world where no URL can be reached, where the call fails with the text
  of the connection error, and in the world where also the second reference can be reached,
  where the call returns what it returns when the second reference refuses the connection.
\<close>

theorem only_first_reference_is_fetched_witness:
  "generate_with_reference_urls (demo_world\<lparr>requests_get := offline_get\<rparr>) demo_state demo_request
     = (demo_state, failure ''Connection refused'' ''Failed to generate image with references'')
   \<and> generate_with_reference_urls (demo_world\<lparr>requests_get := reachable_get\<rparr>) demo_state demo_request
     = generate_with_reference_urls demo_world demo_state demo_request"
proof -
  let ?off = "demo_world\<lparr>requests_get := offline_get\<rparr>"
  have c1: "client ?off" by (simp add: demo_world_def)
  have u: "image_urls demo_request = ''https://refs.example/a.png'' # [''https://refs.example/b.png'']"
    by (simp add: demo_request_def)
  have d: "download_image_from_url ?off ''https://refs.example/a.png''
             = Inl (Exception RequestException ''Connection refused'')"
    by (simp add: download_image_from_url_def offline_get_def)
  have first: "generate_with_reference_urls ?off demo_state demo_request
     = (demo_state, failure ''Connection refused'' ''Failed to generate image with references'')"
    using only_first_reference_is_fetched[OF c1 u, of "Exception RequestException ''Connection refused''" demo_state]
      d by simp
  have c2: "client demo_world" by (simp add: demo_world_def)
  have agree: "\<forall>v t h st. v = ''https://refs.example/a.png'' \<or> (t, h, st) \<noteq> (Some 30, browser_headers, True)
       \<longrightarrow> reachable_get v t h st = requests_get demo_world v t h st"
    by (auto simp: reachable_get_def)
  have second: "generate_with_reference_urls (demo_world\<lparr>requests_get := reachable_get\<rparr>) demo_state demo_request
     = generate_with_reference_urls demo_world demo_state demo_request"
    using only_first_reference_is_fetched[OF c2 u, of _ demo_state reachable_get] agree by blast
  show ?thesis using first second by simp
qed

subsection \<open>Exceptions become outcomes\<close>

text \<open>
  C8. Both operations return an outcome and no exception: their result type has no
  exception, and whenever the body of the \<open>try\<close> raises \<open>e\<close> the result is the
  failure outcome, \<open>success = False\<close>, whose error is \<open>str(e)\<close>. So it is for an
  error of the provider in \<open>generate_image\<close>, for a network error of the reference
  download, and for an image that cannot be decoded, where the exception that reaches the
  handler is the \<open>ValueError\<close> of \<open>_process_image_for_openai\<close>.
\<close>

theorem exceptions_become_outcomes:
  "(generate_image_try w s rq = (s', Inl e) \<longrightarrow>
      generate_image w s rq = (s', failure (str e) ''Failed to generate image''))
   \<and> (generate_with_reference_urls_try w s ref = (s', Inl e) \<longrightarrow>
      generate_with_reference_urls w s ref
        = (s', failure (str e) ''Failed to generate image with references''))
   \<and> (client w \<and> images_generate w (OpenAIModel_value (model rq)) (prompt rq)
         (ImageSize_value (req_size rq)) (ImageQuality_value (quality rq)) (req_n rq) = Inl e \<longrightarrow>
      generate_image w s rq = (s, failure (str e) ''Failed to generate image''))
   \<and> (client w \<and> image_urls ref \<noteq> []
       \<and> requests_get w (hd (image_urls ref)) (Some 30) browser_headers True = Inl e \<longrightarrow>
      generate_with_reference_urls w s ref
        = (s, failure (str e) ''Failed to generate image with references''))
   \<and> (client w \<and> image_urls ref \<noteq> []
       \<and> requests_get w (hd (image_urls ref)) (Some 30) browser_headers True = Inr resp
       \<and> raise_for_status resp = Inr () \<and> Image_open w (content resp) = Inl e \<longrightarrow>
      generate_with_reference_urls w s ref
        = (s, failure (''Invalid image data: '' @ str e) ''Failed to generate image with references''))
   \<and> success (failure x y) = False \<and> error (failure x y) = Some x"
  by (simp add: generate_image_def generate_image_try_def generate_with_reference_urls_def
      generate_with_reference_urls_try_def download_image_from_url_def
      process_image_for_openai_def failure_def)

text \<open>
  The theorem in three worlds: the provider raises, the network is down, the reference is
  not an image.
\<close>

theorem exceptions_become_outcomes_witness:
  "generate_image
       (demo_world\<lparr>images_generate := \<lambda>m p sz q k. Inl (Exception OpenAIError ''Billing hard limit has been reached'')\<rparr>)
       demo_state demo_request
     = (demo_state, failure ''Billing hard limit has been reached'' ''Failed to generate image'')
   \<and> generate_with_reference_urls (demo_world\<lparr>requests_get := offline_get\<rparr>) demo_state demo_request
     = (demo_state, failure ''Connection refused'' ''Failed to generate image with references'')
   \<and> generate_with_reference_urls
       (demo_world\<lparr>Image_open := \<lambda>b. Inl (Exception UnidentifiedImageError ''cannot identify image file'')\<rparr>)
       demo_state demo_request
     = (demo_state, failure ''Invalid image data: cannot identify image file''
          ''Failed to generate image with references'')"
proof -
  let ?w1 = "demo_world\<lparr>images_generate := \<lambda>m p sz q k. Inl (Exception OpenAIError ''Billing hard limit has been reached'')\<rparr>"
  let ?w2 = "demo_world\<lparr>requests_get := offline_get\<rparr>"
  let ?w3 = "demo_world\<lparr>Image_open := \<lambda>b. Inl (Exception UnidentifiedImageError ''cannot identify image file'')\<rparr>"
  let ?ok = "\<lparr>status_code = 200, reason = ''OK'', resp_url = ''https://refs.example/a.png'', content = [1, 2, 3]\<rparr>"
  have a: "generate_image ?w1 demo_state demo_request
     = (demo_state, failure ''Billing hard limit has been reached'' ''Failed to generate image'')"
    using exceptions_become_outcomes[of ?w1 demo_state demo_request demo_state
        "Exception OpenAIError ''Billing hard limit has been reached''" demo_request ?ok "[]" "[]"]
    by (simp add: demo_world_def)
  have b: "generate_with_reference_urls ?w2 demo_state demo_request
     = (demo_state, failure ''Connection refused'' ''Failed to generate image with references'')"
    using exceptions_become_outcomes[of ?w2 demo_state demo_request demo_state
        "Exception RequestException ''Connection refused''" demo_request ?ok "[]" "[]"]
    by (simp add: demo_world_def demo_request_def offline_get_def)
  have c: "generate_with_reference_urls ?w3 demo_state demo_request
     = (demo_state, failure ''Invalid image data: cannot identify image file''
          ''Failed to generate image with references'')"
    using exceptions_become_outcomes[of ?w3 demo_state demo_request demo_state
        "Exception UnidentifiedImageError ''cannot identify image file''" demo_request ?ok "[]" "[]"]
    by (simp add: demo_world_def demo_request_def raise_for_status_def)
  show ?thesis using a b c by simp
qed

end
